theory Spec2Isabelle
  imports Complex_Main
begin

chapter \<open>The program\<close>

section \<open>JavaScript numbers\<close>

text \<open>
  Scores are JavaScript numbers. The model keeps the special values of IEEE arithmetic
  (\<open>NaN\<close>, \<open>+Infinity\<close>, \<open>-Infinity\<close>) and takes every finite value as a real number, so
  rounding is not modelled. Negative zero is not modelled either: every divisor of the
  engine is a length, a size, a positive constant or the configured \<open>maxClassesPerDay\<close>.
\<close>

datatype jsnum = Num real | PosInf | NegInf | NaN

fun jneg :: "jsnum \<Rightarrow> jsnum" where
  "jneg (Num a) = Num (- a)"
| "jneg PosInf = NegInf"
| "jneg NegInf = PosInf"
| "jneg NaN = NaN"

fun jadd :: "jsnum \<Rightarrow> jsnum \<Rightarrow> jsnum" where
  "jadd (Num a) (Num b) = Num (a + b)"
| "jadd (Num a) PosInf = PosInf"
| "jadd (Num a) NegInf = NegInf"
| "jadd PosInf (Num b) = PosInf"
| "jadd PosInf PosInf = PosInf"
| "jadd NegInf (Num b) = NegInf"
| "jadd NegInf NegInf = NegInf"
| "jadd PosInf NegInf = NaN"
| "jadd NegInf PosInf = NaN"
| "jadd NaN b = NaN"
| "jadd a NaN = NaN"

definition jsub :: "jsnum \<Rightarrow> jsnum \<Rightarrow> jsnum" where
  "jsub a b = jadd a (jneg b)"

fun jmul :: "jsnum \<Rightarrow> jsnum \<Rightarrow> jsnum" where
  "jmul (Num a) (Num b) = Num (a * b)"
| "jmul (Num a) PosInf = (if a = 0 then NaN else if 0 < a then PosInf else NegInf)"
| "jmul (Num a) NegInf = (if a = 0 then NaN else if 0 < a then NegInf else PosInf)"
| "jmul PosInf (Num b) = (if b = 0 then NaN else if 0 < b then PosInf else NegInf)"
| "jmul NegInf (Num b) = (if b = 0 then NaN else if 0 < b then NegInf else PosInf)"
| "jmul PosInf PosInf = PosInf"
| "jmul NegInf NegInf = PosInf"
| "jmul PosInf NegInf = NegInf"
| "jmul NegInf PosInf = NegInf"
| "jmul NaN b = NaN"
| "jmul a NaN = NaN"

fun jdiv :: "jsnum \<Rightarrow> jsnum \<Rightarrow> jsnum" where
  "jdiv (Num a) (Num b) =
     (if b = 0 then (if a = 0 then NaN else if 0 < a then PosInf else NegInf)
      else Num (a / b))"
| "jdiv (Num a) PosInf = Num 0"
| "jdiv (Num a) NegInf = Num 0"
| "jdiv PosInf (Num b) = (if 0 \<le> b then PosInf else NegInf)"
| "jdiv NegInf (Num b) = (if 0 \<le> b then NegInf else PosInf)"
| "jdiv PosInf PosInf = NaN"
| "jdiv PosInf NegInf = NaN"
| "jdiv NegInf PosInf = NaN"
| "jdiv NegInf NegInf = NaN"
| "jdiv NaN b = NaN"
| "jdiv a NaN = NaN"

text \<open>\<open>jless a b\<close> is the JavaScript comparison \<open>a < b\<close>; \<open>jgt a b\<close> is \<open>a > b\<close>.\<close>

fun jless :: "jsnum \<Rightarrow> jsnum \<Rightarrow> bool" where
  "jless (Num a) (Num b) = (a < b)"
| "jless (Num a) PosInf = True"
| "jless NegInf (Num b) = True"
| "jless NegInf PosInf = True"
| "jless a b = False"

definition jgt :: "jsnum \<Rightarrow> jsnum \<Rightarrow> bool" where
  "jgt a b = jless b a"

fun jexp :: "jsnum \<Rightarrow> jsnum" where
  "jexp (Num a) = Num (exp a)"
| "jexp PosInf = PosInf"
| "jexp NegInf = Num 0"
| "jexp NaN = NaN"

section \<open>Data model\<close>

text \<open>
  A \<open>Date\<close> is its time value \<open>getTime()\<close>, in milliseconds since the epoch (a valid
  date). A conflict and the remembered best slot are both \<open>{ date, period }\<close>.
  Some fields are renamed, since a record field is a constant of the whole theory:
  \<open>classId\<close> is the field \<open>id\<close> of a class, \<open>slotDate\<close> and \<open>slotPeriod\<close> are the
  fields \<open>date\<close> and \<open>period\<close> of a slot, \<open>engineClasses\<close> is \<open>this.classes\<close> of the
  engine, and \<open>preferredProgression\<close> is \<open>preferences.gradeProgression\<close>.
\<close>

record Slot =
  slotDate :: int
  slotPeriod :: int

record Class =
  classId :: string
  name :: string
  gradeLevel :: string
  gradeGroup :: string
  teacher :: string
  totalConflicts :: "Slot list"
  partialConflicts :: "Slot list"

record ScheduledClass = Class +
  date :: int
  period :: int

text \<open>
  Modelled from the spec: the declarations of \<open>ScheduleConstraints\<close> and
  \<open>SchedulePreferences\<close> (the module \<open>../types\<close> is not among the source files). The
  engine reads \<open>maxPeriodsPerDay\<close> and \<open>maxClassesPerDay\<close> only; both are taken as integers.
\<close>

record ConsecutivePeriods =
  maximum :: int
  requireBreak :: int

record ScheduleConstraints =
  maxPeriodsPerDay :: int
  maxPeriodsPerWeek :: int
  maxClassesPerDay :: int
  consecutivePeriods :: ConsecutivePeriods
  blackoutPeriods :: "Slot list"

datatype GradeProgressionPreference = none | low_to_high | high_to_low

record SchedulePreferences =
  gradeGroups :: "string list list"
  preferSameGradeInDay :: bool
  preferredProgression :: GradeProgressionPreference

record ScheduleScore =
  totalLength :: jsnum
  gradeGroupCohesion :: jsnum
  distributionQuality :: jsnum
  constraintViolations :: jsnum
  gradeProgression :: jsnum
  partialConflictPenalty :: jsnum

record Schedule =
  classes :: "ScheduledClass list"
  score :: ScheduleScore

record ScheduleEngine =
  engineClasses :: "Class list"
  startDate :: int
  constraints :: ScheduleConstraints

datatype error = TypeError | ConfigurationError | SchedulingFailed

definition MAX_ITERATIONS :: nat where
  "MAX_ITERATIONS = 10000"

text \<open>The constructor stores three of its four arguments and does nothing else.\<close>

definition newScheduleEngine ::
  "Class list \<Rightarrow> int \<Rightarrow> ScheduleConstraints \<Rightarrow> SchedulePreferences \<Rightarrow> error + ScheduleEngine" where
  "newScheduleEngine cs sd k prefs =
     Inr \<lparr> engineClasses = cs, startDate = sd, constraints = k \<rparr>"

section \<open>Dates and built-ins\<close>

text \<open>
  \<open>date.toISOString().split('T')[0]\<close> is the UTC calendar day of the date; the day
  number stands for that string.
\<close>

definition dateKey :: "int \<Rightarrow> int" where
  "dateKey d = d div 86400000"

text \<open>
  \<open>getDateRange\<close> steps with \<open>setDate(getDate() + 1)\<close>, the next local calendar day, which
  depends on the host's time zone; the step is the parameter \<open>nextDay\<close>. \<open>utcNextDay\<close> is
  the step of a host running in UTC.
\<close>

fun getDateRange :: "(int \<Rightarrow> int) \<Rightarrow> int \<Rightarrow> nat \<Rightarrow> int list" where
  "getDateRange nextDay currentDate 0 = []"
| "getDateRange nextDay currentDate (Suc n) =
     currentDate # getDateRange nextDay (nextDay currentDate) n"

definition utcNextDay :: "int \<Rightarrow> int" where
  "utcNextDay d = d + 86400000"

text \<open>\<open>Array.from({ length: maxPeriodsPerDay }, (_, i) => i + 1)\<close>.\<close>

definition periodsOf :: "ScheduleConstraints \<Rightarrow> int list" where
  "periodsOf k = map (\<lambda>i. int i + 1) [0..<nat (maxPeriodsPerDay k)]"

text \<open>
  \<open>parseInt\<close> on a grade level: leading white space, an optional sign, an optional
  \<open>0x\<close> prefix, then the longest run of digits; \<open>None\<close> is \<open>NaN\<close>.
\<close>

definition isWhiteSpace :: "char \<Rightarrow> bool" where
  "isWhiteSpace c = (c \<in> set [CHR '' '', CHR 0x09, CHR 0x0A, CHR 0x0B, CHR 0x0C, CHR 0x0D])"

definition digitValue :: "char \<Rightarrow> nat option" where
  "digitValue c =
     (let n = of_char c :: nat in
      if 48 \<le> n \<and> n \<le> 57 then Some (n - 48)
      else if 97 \<le> n \<and> n \<le> 122 then Some (n - 87)
      else if 65 \<le> n \<and> n \<le> 90 then Some (n - 55)
      else None)"

definition isDigitOf :: "nat \<Rightarrow> char \<Rightarrow> bool" where
  "isDigitOf radix c = (case digitValue c of None \<Rightarrow> False | Some v \<Rightarrow> v < radix)"

definition parseInt :: "string \<Rightarrow> int option" where
  "parseInt s =
     (let s1 = dropWhile isWhiteSpace s;
          negative = (case s1 of c # _ \<Rightarrow> c = CHR ''-'' | [] \<Rightarrow> False);
          s2 = (case s1 of c # r \<Rightarrow> if c = CHR ''-'' \<or> c = CHR ''+'' then r else s1 | [] \<Rightarrow> s1);
          hex = (take 2 s2 = ''0x'' \<or> take 2 s2 = ''0X'');
          radix = (if hex then 16 else 10);
          s3 = (if hex then drop 2 s2 else s2);
          ds = takeWhile (isDigitOf radix) s3;
          v = foldl (\<lambda>a c. a * int radix + int (the (digitValue c))) 0 ds
      in if ds = [] then None else Some (if negative then - v else v))"

section \<open>Randomness\<close>

text \<open>
  Every \<open>Math.random()\<close> is a draw of an oracle. One \<open>Rand\<close> holds the draws of one
  placement attempt: \<open>pick\<close> chooses the class to move, \<open>dateKeys\<close> and \<open>periodKeys\<close>
  decide the two shuffles, \<open>accept i j\<close> is the draw compared with 0.99 at the \<open>j\<close>-th
  period of the \<open>i\<close>-th date, and \<open>metropolis\<close> is the draw of the acceptance test.
  \<open>xs.sort(() => Math.random() - 0.5)\<close> returns the elements of \<open>xs\<close> in some order: the
  order is given by sorting on the keys the oracle attaches to the positions.
\<close>

record Rand =
  pick :: real
  dateKeys :: "nat \<Rightarrow> nat"
  periodKeys :: "nat \<Rightarrow> nat"
  accept :: "nat \<Rightarrow> nat \<Rightarrow> real"
  metropolis :: real

record Oracle =
  initRand :: "nat \<Rightarrow> Rand"
  iterRand :: "nat \<Rightarrow> Rand"

definition shuffle :: "(nat \<Rightarrow> nat) \<Rightarrow> 'a list \<Rightarrow> 'a list" where
  "shuffle keys xs = map snd (sort_key fst (zip (map keys [0..<length xs]) xs))"

section \<open>Scoring\<close>

text \<open>The test \<open>totalConflicts.some(c => c.date.getTime() === date.getTime() && c.period === period)\<close>.\<close>

definition hasTotalConflict :: "Slot list \<Rightarrow> int \<Rightarrow> int \<Rightarrow> bool" where
  "hasTotalConflict conflicts d p =
     list_ex (\<lambda>conflict. slotDate conflict = d \<and> slotPeriod conflict = p) conflicts"

text \<open>\<open>this.classes.find(c => c.id === id)\<close>.\<close>

definition findClass :: "Class list \<Rightarrow> string \<Rightarrow> Class option" where
  "findClass cs i = find (\<lambda>c. classId c = i) cs"

definition calculateConstraintViolations :: "ScheduleEngine \<Rightarrow> ScheduledClass list \<Rightarrow> nat" where
  "calculateConstraintViolations eng cs =
     foldl (\<lambda>violations cls.
              case findClass (engineClasses eng) (classId cls) of
                None \<Rightarrow> violations
              | Some originalClass \<Rightarrow>
                  if hasTotalConflict (totalConflicts originalClass) (date cls) (period cls)
                  then violations + 1 else violations)
           0 cs"

text \<open>
  A \<open>Map\<close> filled by \<open>forEach\<close> keeps its keys in the order of their first insertion:
  an association list. \<open>groupInsert\<close> is the \<open>has/set/get/push\<close> idiom, \<open>countInsert\<close> is
  \<open>set(key, (get(key) || 0) + 1)\<close>.
\<close>

fun groupInsert :: "'k \<Rightarrow> 'a \<Rightarrow> ('k \<times> 'a list) list \<Rightarrow> ('k \<times> 'a list) list" where
  "groupInsert k x [] = [(k, [x])]"
| "groupInsert k x ((k', xs) # rest) =
     (if k = k' then (k', xs @ [x]) # rest else (k', xs) # groupInsert k x rest)"

definition groupBy :: "('a \<Rightarrow> 'k) \<Rightarrow> 'a list \<Rightarrow> ('k \<times> 'a list) list" where
  "groupBy f xs = foldl (\<lambda>m x. groupInsert (f x) x m) [] xs"

fun countInsert :: "'k \<Rightarrow> ('k \<times> nat) list \<Rightarrow> ('k \<times> nat) list" where
  "countInsert k [] = [(k, 1)]"
| "countInsert k ((k', n) # rest) =
     (if k = k' then (k', n + 1) # rest else (k', n) # countInsert k rest)"

definition countBy :: "('a \<Rightarrow> 'k) \<Rightarrow> 'a list \<Rightarrow> ('k \<times> nat) list" where
  "countBy f xs = foldl (\<lambda>m x. countInsert (f x) m) [] xs"

text \<open>The distances \<open>|date i - date j|\<close> of all pairs \<open>i < j\<close> of one grade group.\<close>

fun pairDistances :: "ScheduledClass list \<Rightarrow> int list" where
  "pairDistances [] = []"
| "pairDistances (x # xs) = map (\<lambda>y. \<bar>date x - date y\<bar>) xs @ pairDistances xs"

definition groupCohesion :: "real \<Rightarrow> ScheduledClass list \<Rightarrow> real" where
  "groupCohesion acc groupClasses =
     (let totalDistance = real_of_int (sum_list (pairDistances groupClasses));
          comparisons = length (pairDistances groupClasses)
      in if comparisons > 0
         then acc + (1 - (totalDistance / real comparisons) / (14 * 24 * 60 * 60 * 1000))
         else acc)"

text \<open>
  The number of adjacent pairs of a day, sorted by period, whose grade levels do not
  decrease. A comparison with \<open>NaN\<close> is false.
\<close>

fun countIncreasing :: "ScheduledClass list \<Rightarrow> nat" where
  "countIncreasing (a # b # rest) =
     (case (parseInt (gradeLevel a), parseInt (gradeLevel b)) of
        (Some currentGrade, Some nextGrade) \<Rightarrow>
          (if currentGrade \<le> nextGrade then 1 else 0) + countIncreasing (b # rest)
      | _ \<Rightarrow> countIncreasing (b # rest))"
| "countIncreasing _ = 0"

text \<open>One accumulator runs over all days: it is divided again at every day with two or more classes.\<close>

definition dayProgression :: "real \<Rightarrow> ScheduledClass list \<Rightarrow> real" where
  "dayProgression acc dayClasses =
     (let sorted = sort_key period dayClasses;
          acc' = acc + real (countIncreasing sorted)
      in if length sorted > 1 then acc' / real (length sorted - 1) else acc')"

definition calculateScore :: "ScheduleEngine \<Rightarrow> ScheduledClass list \<Rightarrow> ScheduleScore" where
  "calculateScore eng cs =
     (let totalLength = jdiv (Num (real (length cs))) (Num (real (length (engineClasses eng))));
          gradeGroups = groupBy gradeGroup cs;
          cohesionSum = foldl groupCohesion 0 (map snd gradeGroups);
          gradeGroupCohesion =
            (if length gradeGroups > 0 then cohesionSum / real (length gradeGroups)
             else cohesionSum);
          classesByDate = countBy (\<lambda>cls. dateKey (date cls)) cs;
          qualitySum =
            foldl (\<lambda>q count.
                     jadd q (jdiv (Num (real count))
                                  (Num (real_of_int (maxClassesPerDay (constraints eng))))))
                  (Num 0) (map snd classesByDate);
          distributionQuality =
            (if length classesByDate > 0
             then jdiv qualitySum (Num (real (length classesByDate))) else qualitySum);
          classesByDay = groupBy (\<lambda>cls. dateKey (date cls)) cs;
          gradeProgression = foldl dayProgression 0 (map snd classesByDay)
      in \<lparr> totalLength = totalLength,
           gradeGroupCohesion = Num gradeGroupCohesion,
           distributionQuality = distributionQuality,
           constraintViolations = Num (real (calculateConstraintViolations eng cs)),
           gradeProgression = Num gradeProgression,
           partialConflictPenalty = Num 0 \<rparr>)"

text \<open>\<open>Object.entries(weights).reduce(...)\<close>, in the order the weights are written.\<close>

definition weights :: "((ScheduleScore \<Rightarrow> jsnum) \<times> real) list" where
  "weights =
     [(totalLength, 1), (gradeGroupCohesion, 0.5), (distributionQuality, 0.3),
      (constraintViolations, -100), (gradeProgression, 0.4), (partialConflictPenalty, 0)]"

definition aggregateScore :: "ScheduleScore \<Rightarrow> jsnum" where
  "aggregateScore scores =
     foldl (\<lambda>total (key, weight). jadd total (jmul (key scores) (Num weight))) (Num 0) weights"

section \<open>Slot search\<close>

text \<open>
  \<open>classesPerDay\<close> is a \<open>Map\<close> from day keys to counts; \<open>dayCount m k\<close> is
  \<open>m.get(k) || 0\<close>.
\<close>

definition dayCount :: "(int \<rightharpoonup> nat) \<Rightarrow> int \<Rightarrow> nat" where
  "dayCount m k = (case m k of None \<Rightarrow> 0 | Some n \<Rightarrow> n)"

text \<open>
  The two nested \<open>for\<close> loops over the shuffled dates and periods are the same in
  \<open>generateInitialSolution\<close> and in \<open>mutateSchedule\<close>. The result is the pair of
  \<open>bestSlot\<close> (the first slot without a total conflict that was seen) and of the
  slot at which the draw fell below 0.99 and the loops were left, if any.
\<close>

fun scanPeriods ::
  "Slot list \<Rightarrow> int \<Rightarrow> (nat \<Rightarrow> real) \<Rightarrow> nat \<Rightarrow> int list \<Rightarrow> Slot option
     \<Rightarrow> Slot option \<times> Slot option" where
  "scanPeriods conflicts d draws j [] bestSlot = (bestSlot, None)"
| "scanPeriods conflicts d draws j (p # ps) bestSlot =
     (if \<not> hasTotalConflict conflicts d p then
        (let bestSlot' =
               (case bestSlot of None \<Rightarrow> Some \<lparr> slotDate = d, slotPeriod = p \<rparr>
                | Some b \<Rightarrow> Some b)
         in if draws j < 0.99 then (bestSlot', Some \<lparr> slotDate = d, slotPeriod = p \<rparr>)
            else scanPeriods conflicts d draws (Suc j) ps bestSlot')
      else scanPeriods conflicts d draws (Suc j) ps bestSlot)"

fun scanDates ::
  "int \<Rightarrow> (int \<rightharpoonup> nat) \<Rightarrow> Slot list \<Rightarrow> (nat \<Rightarrow> nat \<Rightarrow> real) \<Rightarrow> nat \<Rightarrow> int list \<Rightarrow> int list
     \<Rightarrow> Slot option \<Rightarrow> Slot option \<times> Slot option" where
  "scanDates maxPerDay classesPerDay conflicts draws i [] periods bestSlot = (bestSlot, None)"
| "scanDates maxPerDay classesPerDay conflicts draws i (d # ds) periods bestSlot =
     (if int (dayCount classesPerDay (dateKey d)) \<ge> maxPerDay
      then scanDates maxPerDay classesPerDay conflicts draws (Suc i) ds periods bestSlot
      else (case scanPeriods conflicts d (draws i) 0 periods bestSlot of
              (bestSlot', Some s) \<Rightarrow> (bestSlot', Some s)
            | (bestSlot', None) \<Rightarrow>
                scanDates maxPerDay classesPerDay conflicts draws (Suc i) ds periods bestSlot'))"

definition findSlot ::
  "(int \<Rightarrow> int) \<Rightarrow> Rand \<Rightarrow> ScheduleEngine \<Rightarrow> (int \<rightharpoonup> nat) \<Rightarrow> Slot list
     \<Rightarrow> Slot option \<times> Slot option" where
  "findSlot nextDay r eng classesPerDay conflicts =
     (let dates = getDateRange nextDay (startDate eng) 14;
          periods = periodsOf (constraints eng);
          shuffledDates = shuffle (dateKeys r) dates;
          shuffledPeriods = shuffle (periodKeys r) periods
      in scanDates (maxClassesPerDay (constraints eng)) classesPerDay conflicts (accept r) 0
           shuffledDates shuffledPeriods None)"

section \<open>Initial solution\<close>

definition scheduleAt :: "Class \<Rightarrow> Slot \<Rightarrow> ScheduledClass" where
  "scheduleAt cls s =
     \<lparr> classId = classId cls, name = name cls, gradeLevel = gradeLevel cls,
       gradeGroup = gradeGroup cls, teacher = teacher cls,
       totalConflicts = totalConflicts cls, partialConflicts = partialConflicts cls,
       date = slotDate s, period = slotPeriod s \<rparr>"

text \<open>
  One round of \<open>this.classes.forEach\<close>: the class is pushed at the slot where the loops
  were left, or else at \<open>bestSlot\<close>, or not at all; the count of that day goes up by one.
\<close>

definition placeClass ::
  "(int \<Rightarrow> int) \<Rightarrow> Rand \<Rightarrow> ScheduleEngine \<Rightarrow> ScheduledClass list \<times> (int \<rightharpoonup> nat) \<Rightarrow> Class
     \<Rightarrow> ScheduledClass list \<times> (int \<rightharpoonup> nat)" where
  "placeClass nextDay r eng st cls =
     (let (placed, classesPerDay) = st;
          (bestSlot, chosen) = findSlot nextDay r eng classesPerDay (totalConflicts cls);
          target = (case chosen of Some s \<Rightarrow> Some s | None \<Rightarrow> bestSlot)
      in case target of
           None \<Rightarrow> (placed, classesPerDay)
         | Some s \<Rightarrow>
             (placed @ [scheduleAt cls s],
              classesPerDay(dateKey (slotDate s) \<mapsto>
                dayCount classesPerDay (dateKey (slotDate s)) + 1)))"

fun placeAll ::
  "(int \<Rightarrow> int) \<Rightarrow> (nat \<Rightarrow> Rand) \<Rightarrow> ScheduleEngine \<Rightarrow> nat \<Rightarrow> Class list
     \<Rightarrow> ScheduledClass list \<times> (int \<rightharpoonup> nat) \<Rightarrow> ScheduledClass list \<times> (int \<rightharpoonup> nat)" where
  "placeAll nextDay rs eng i [] st = st"
| "placeAll nextDay rs eng i (cls # rest) st =
     placeAll nextDay rs eng (Suc i) rest (placeClass nextDay (rs i) eng st cls)"

definition generateInitialSolution :: "(int \<Rightarrow> int) \<Rightarrow> (nat \<Rightarrow> Rand) \<Rightarrow> ScheduleEngine \<Rightarrow> Schedule" where
  "generateInitialSolution nextDay rs eng =
     (let placed = fst (placeAll nextDay rs eng 0 (engineClasses eng) ([], Map.empty))
      in \<lparr> classes = placed, score = calculateScore eng placed \<rparr>)"

section \<open>Mutation\<close>

text \<open>The counts of \<open>newClasses.forEach(cls => classesPerDay.set(key, (get(key) || 0) + 1))\<close>.\<close>

definition countPerDay :: "ScheduledClass list \<Rightarrow> (int \<rightharpoonup> nat)" where
  "countPerDay cs =
     foldl (\<lambda>m cls. m(dateKey (date cls) \<mapsto> dayCount m (dateKey (date cls)) + 1)) Map.empty cs"

text \<open>
  \<open>newClasses[indexToMove]\<close> is \<open>undefined\<close> when the index is not one of the array, and
  reading \<open>classToMove.id\<close> then throws a \<open>TypeError\<close>. The class is moved to \<open>bestSlot\<close>,
  whatever slot the loops were left at.
\<close>

definition mutateSchedule ::
  "(int \<Rightarrow> int) \<Rightarrow> Rand \<Rightarrow> ScheduleEngine \<Rightarrow> Schedule \<Rightarrow> error + Schedule" where
  "mutateSchedule nextDay r eng schedule =
     (let newClasses = classes schedule;
          classesPerDay = countPerDay newClasses;
          indexToMove = \<lfloor>pick r * real (length newClasses)\<rfloor>
      in if indexToMove < 0 \<or> int (length newClasses) \<le> indexToMove then Inl TypeError
         else
           (let classToMove = newClasses ! nat indexToMove
            in case findClass (engineClasses eng) (classId classToMove) of
                 None \<Rightarrow> Inr schedule
               | Some originalClass \<Rightarrow>
                   (let oldDateKey = dateKey (date classToMove);
                        classesPerDay' =
                          classesPerDay(oldDateKey \<mapsto>
                            (if dayCount classesPerDay oldDateKey = 0 then 1
                             else dayCount classesPerDay oldDateKey) - 1);
                        bestSlot =
                          fst (findSlot nextDay r eng classesPerDay' (totalConflicts originalClass));
                        newClasses' =
                          (case bestSlot of
                             None \<Rightarrow> newClasses
                           | Some b \<Rightarrow>
                               newClasses[nat indexToMove :=
                                 classToMove\<lparr> date := slotDate b, period := slotPeriod b \<rparr>])
                    in Inr \<lparr> classes = newClasses', score = calculateScore eng newClasses' \<rparr>)))"

section \<open>The annealing loop\<close>

record AnnealState =
  iterations :: nat
  bestScore :: jsnum
  lastImprovement :: nat
  currentSchedule :: Schedule
  bestSchedule :: Schedule

definition maxIterationsWithoutImprovement :: int where
  "maxIterationsWithoutImprovement = 1000"

definition loopCondition :: "AnnealState \<Rightarrow> bool" where
  "loopCondition st =
     (iterations st < MAX_ITERATIONS \<and>
      int (iterations st) - int (lastImprovement st) < maxIterationsWithoutImprovement)"

text \<open>The body of the \<open>while\<close> loop. The second draw is taken only when the first test fails.\<close>

definition annealStep ::
  "(int \<Rightarrow> int) \<Rightarrow> Rand \<Rightarrow> ScheduleEngine \<Rightarrow> AnnealState \<Rightarrow> error + AnnealState" where
  "annealStep nextDay r eng st =
     (let temperature = 1.0 * 0.995 ^ iterations st
      in case mutateSchedule nextDay r eng (currentSchedule st) of
           Inl e \<Rightarrow> Inl e
         | Inr newSchedule \<Rightarrow>
             (let currentScore = aggregateScore (score (currentSchedule st));
                  newScore = aggregateScore (score newSchedule)
              in if jgt newScore currentScore \<or>
                    jless (Num (metropolis r))
                      (jexp (jdiv (jsub newScore currentScore) (Num temperature)))
                 then
                   (if jgt newScore (bestScore st)
                    then Inr \<lparr> iterations = iterations st + 1, bestScore = newScore,
                               lastImprovement = iterations st,
                               currentSchedule = newSchedule, bestSchedule = newSchedule \<rparr>
                    else Inr (st\<lparr> iterations := iterations st + 1,
                                   currentSchedule := newSchedule \<rparr>))
                 else Inr (st\<lparr> iterations := iterations st + 1 \<rparr>)))"

text \<open>
  The \<open>while\<close> loop; a \<open>TypeError\<close> thrown by the body leaves it. Every round adds one to
  \<open>iterations\<close>, which the loop condition bounds.
\<close>

function annealLoop ::
  "(int \<Rightarrow> int) \<Rightarrow> (nat \<Rightarrow> Rand) \<Rightarrow> ScheduleEngine \<Rightarrow> AnnealState \<Rightarrow> error + AnnealState" where
  "annealLoop nextDay rs eng st =
     (if loopCondition st
      then (case annealStep nextDay (rs (iterations st)) eng st of
              Inl e \<Rightarrow> Inl e
            | Inr st' \<Rightarrow> annealLoop nextDay rs eng st')
      else Inr st)"
  by pat_completeness auto
termination
proof (relation "measure (\<lambda>(nextDay, rs, eng, st). MAX_ITERATIONS - iterations st)")
  show "wf (measure (\<lambda>(nextDay, rs, eng, st). MAX_ITERATIONS - iterations st))"
    by simp
next
  fix nextDay :: "int \<Rightarrow> int" and rs :: "nat \<Rightarrow> Rand" and eng :: ScheduleEngine
    and st st' :: AnnealState
  assume c: "loopCondition st" and s: "annealStep nextDay (rs (iterations st)) eng st = Inr st'"
  from s have "iterations st' = iterations st + 1"
    by (auto simp: annealStep_def Let_def split: sum.splits if_splits)
  with c show "((nextDay, rs, eng, st'), (nextDay, rs, eng, st))
      \<in> measure (\<lambda>(nextDay, rs, eng, st). MAX_ITERATIONS - iterations st)"
    unfolding loopCondition_def by (simp add: diff_less_mono2)
qed

declare annealLoop.simps [simp del]

definition initialState :: "Schedule \<Rightarrow> AnnealState" where
  "initialState s =
     \<lparr> iterations = 0, bestScore = NegInf, lastImprovement = 0,
       currentSchedule = s, bestSchedule = s \<rparr>"

text \<open>\<open>runAnnealer\<close> is \<open>generateSchedule\<close> with the final loop variables kept.\<close>

definition runAnnealer :: "(int \<Rightarrow> int) \<Rightarrow> Oracle \<Rightarrow> ScheduleEngine \<Rightarrow> error + AnnealState" where
  "runAnnealer nextDay orc eng =
     annealLoop nextDay (iterRand orc) eng
       (initialState (generateInitialSolution nextDay (initRand orc) eng))"

definition generateSchedule :: "(int \<Rightarrow> int) \<Rightarrow> Oracle \<Rightarrow> ScheduleEngine \<Rightarrow> error + Schedule" where
  "generateSchedule nextDay orc eng =
     (case runAnnealer nextDay orc eng of
        Inl e \<Rightarrow> Inl e
      | Inr st \<Rightarrow> Inr (bestSchedule st))"

section \<open>The multi-run aggregator\<close>





section \<open>Mutation on the object store\<close>

text \<open>
  \<open>mutateSchedule\<close> once more, with the objects it touches in a store, to see what it
  writes. The store is a list of cells and an address is an index; a new object is a new
  last cell. A schedule object refers to its array of classes and to its score object; the
  array holds the addresses of its entries. The cells that \<open>calculateScore\<close> builds for
  itself (its maps and the arrays it sorts) are its own and are left out.
\<close>

datatype cell =
    ClassCell ScheduledClass
  | ArrayCell "nat list"
  | ScoreCell ScheduleScore
  | ScheduleCell nat nat

type_synonym store = "cell list"

definition alloc :: "store \<Rightarrow> cell \<Rightarrow> store \<times> nat" where
  "alloc h c = (h @ [c], length h)"

definition readCell :: "store \<Rightarrow> nat \<Rightarrow> cell option" where
  "readCell h a = (if a < length h then Some (h ! a) else None)"

definition readClass :: "store \<Rightarrow> nat \<Rightarrow> ScheduledClass option" where
  "readClass h a = (case readCell h a of Some (ClassCell c) \<Rightarrow> Some c | _ \<Rightarrow> None)"

fun readClasses :: "store \<Rightarrow> nat list \<Rightarrow> ScheduledClass list option" where
  "readClasses h [] = Some []"
| "readClasses h (a # refs) =
     (case (readClass h a, readClasses h refs) of
        (Some c, Some cs) \<Rightarrow> Some (c # cs)
      | _ \<Rightarrow> None)"

definition readArray :: "store \<Rightarrow> nat \<Rightarrow> nat list option" where
  "readArray h a = (case readCell h a of Some (ArrayCell refs) \<Rightarrow> Some refs | _ \<Rightarrow> None)"

definition readScore :: "store \<Rightarrow> nat \<Rightarrow> ScheduleScore option" where
  "readScore h a = (case readCell h a of Some (ScoreCell s) \<Rightarrow> Some s | _ \<Rightarrow> None)"

text \<open>The schedule value that the object at an address stands for.\<close>

definition readSchedule :: "store \<Rightarrow> nat \<Rightarrow> Schedule option" where
  "readSchedule h a =
     (case readCell h a of
        Some (ScheduleCell arr sc) \<Rightarrow>
          (case readArray h arr of
             None \<Rightarrow> None
           | Some refs \<Rightarrow>
               (case (readClasses h refs, readScore h sc) of
                  (Some cs, Some s) \<Rightarrow> Some \<lparr> classes = cs, score = s \<rparr>
                | _ \<Rightarrow> None))
      | _ \<Rightarrow> None)"

text \<open>
  The statements of \<open>mutateSchedule\<close> that allocate or write, in three blocks.
  \<open>storeMovedEntry\<close> is \<open>if (bestSlot) { newClasses[indexToMove] = { ...classToMove, date,
  period } }\<close>: a new entry object, and a write into the array \<open>newClasses\<close>.
  \<open>storeNewSchedule\<close> is \<open>const score = ...; return { classes: newClasses, score }\<close>: a
  new score object and a new schedule object. \<open>mutateScheduleStore\<close> reads the input
  schedule, makes the copy \<open>[...schedule.classes]\<close> and then goes the way of
  \<open>mutateSchedule\<close>; the early \<open>return schedule\<close> hands back the input object itself.
\<close>

definition storeMovedEntry ::
  "store \<Rightarrow> nat \<Rightarrow> nat list \<Rightarrow> ScheduledClass list \<Rightarrow> nat \<Rightarrow> Slot option
     \<Rightarrow> store \<times> ScheduledClass list" where
  "storeMovedEntry h1 newClasses refs entries i bestSlot =
     (case bestSlot of
        None \<Rightarrow> (h1, entries)
      | Some b \<Rightarrow>
          (let moved = (entries ! i)\<lparr> date := slotDate b, period := slotPeriod b \<rparr>;
               (h', obj) = alloc h1 (ClassCell moved)
           in (h'[newClasses := ArrayCell (refs[i := obj])], entries[i := moved])))"

definition storeNewSchedule ::
  "ScheduleEngine \<Rightarrow> store \<Rightarrow> nat \<Rightarrow> ScheduledClass list \<Rightarrow> store \<times> (error + nat)" where
  "storeNewSchedule eng h2 newClasses entries =
     (let (h3, newScore) = alloc h2 (ScoreCell (calculateScore eng entries));
          (h4, result) = alloc h3 (ScheduleCell newClasses newScore)
      in (h4, Inr result))"

definition mutateCopy ::
  "(int \<Rightarrow> int) \<Rightarrow> Rand \<Rightarrow> ScheduleEngine \<Rightarrow> store \<Rightarrow> nat \<Rightarrow> nat \<Rightarrow> nat list
     \<Rightarrow> ScheduledClass list \<Rightarrow> store \<times> (error + nat)" where
  "mutateCopy nextDay r eng h1 schedule newClasses refs entries =
     (let classesPerDay = countPerDay entries;
          indexToMove = \<lfloor>pick r * real (length refs)\<rfloor>
      in if indexToMove < 0 \<or> int (length refs) \<le> indexToMove then (h1, Inl TypeError)
         else
           (let classToMove = entries ! nat indexToMove
            in case findClass (engineClasses eng) (classId classToMove) of
                 None \<Rightarrow> (h1, Inr schedule)
               | Some originalClass \<Rightarrow>
                   (let oldDateKey = dateKey (date classToMove);
                        classesPerDay' =
                          classesPerDay(oldDateKey \<mapsto>
                            (if dayCount classesPerDay oldDateKey = 0 then 1
                             else dayCount classesPerDay oldDateKey) - 1);
                        bestSlot =
                          fst (findSlot nextDay r eng classesPerDay' (totalConflicts originalClass));
                        (h2, entries') =
                          storeMovedEntry h1 newClasses refs entries (nat indexToMove) bestSlot
                    in storeNewSchedule eng h2 newClasses entries')))"

definition mutateScheduleStore ::
  "(int \<Rightarrow> int) \<Rightarrow> Rand \<Rightarrow> ScheduleEngine \<Rightarrow> store \<Rightarrow> nat \<Rightarrow> store \<times> (error + nat)" where
  "mutateScheduleStore nextDay r eng h schedule =
     (case readCell h schedule of
        Some (ScheduleCell arr sc) \<Rightarrow>
          (case readArray h arr of
             None \<Rightarrow> (h, Inl TypeError)
           | Some refs \<Rightarrow>
               (case readClasses h refs of
                  None \<Rightarrow> (h, Inl TypeError)
                | Some entries \<Rightarrow>
                    (let (h1, newClasses) = alloc h (ArrayCell refs)
                     in mutateCopy nextDay r eng h1 schedule newClasses refs entries)))
      | _ \<Rightarrow> (h, Inl TypeError))"

chapter \<open>Vocabulary and example data\<close>

section \<open>Vocabulary of the properties\<close>

text \<open>
  \<open>classesOn k cs\<close> is the number of scheduled classes of \<open>cs\<close> on the day \<open>k\<close>. A slot is
  legal for the search when it lies in the window, its day is below the cap and the class
  has no total conflict there; \<open>legalSlot\<close> says so for given lists of dates and periods,
  \<open>legalDestination\<close> (below) for the 14-day window and the periods of an engine.
\<close>

definition classesOn :: "int \<Rightarrow> ScheduledClass list \<Rightarrow> nat" where
  "classesOn k cs = length (filter (\<lambda>sc. dateKey (date sc) = k) cs)"

definition legalSlot ::
  "int \<Rightarrow> (int \<rightharpoonup> nat) \<Rightarrow> Slot list \<Rightarrow> int list \<Rightarrow> int list \<Rightarrow> Slot \<Rightarrow> bool" where
  "legalSlot maxPerDay classesPerDay conflicts ds ps s =
     (slotDate s \<in> set ds \<and> slotPeriod s \<in> set ps \<and>
      int (dayCount classesPerDay (dateKey (slotDate s))) < maxPerDay \<and>
      \<not> hasTotalConflict conflicts (slotDate s) (slotPeriod s))"

text \<open>
  Modelled from the spec: the validity conditions of the constraint values (section 4.2
  of the specification); the source has no function that checks them.
\<close>

definition validConstraints :: "ScheduleConstraints \<Rightarrow> bool" where
  "validConstraints k =
     (maximum (consecutivePeriods k) \<in> {1, 2} \<and> requireBreak (consecutivePeriods k) \<in> {1, 2} \<and>
      1 \<le> maxPeriodsPerDay k \<and> maxPeriodsPerDay k \<le> 8 \<and>
      maxPeriodsPerWeek k \<le> maxPeriodsPerDay k * 5 \<and> maxPeriodsPerWeek k \<le> 40)"

text \<open>
  The aggregate that C6 states for the preference \<open>none\<close>, in the claim's words: the
  weighted sum without the grade progression.
\<close>

definition aggregateWithoutProgression :: "ScheduleScore \<Rightarrow> jsnum" where
  "aggregateWithoutProgression scores =
     foldl (\<lambda>total (key, weight). jadd total (jmul (key scores) (Num weight))) (Num 0)
       [(totalLength, 1), (gradeGroupCohesion, 0.5), (distributionQuality, 0.3),
        (constraintViolations, -100)]"

text \<open>
  The legal slots of an engine; a scheduled class that sits on none of its own total
  conflicts; a scheduled class that is a class of the catalogue put at some slot; and the
  two invariants of the search: every entry comes from the catalogue and is free of
  conflicts, and no day of an entry holds more classes than the cap.
\<close>

definition legalDestination ::
  "(int \<Rightarrow> int) \<Rightarrow> ScheduleEngine \<Rightarrow> (int \<rightharpoonup> nat) \<Rightarrow> Slot list \<Rightarrow> Slot \<Rightarrow> bool" where
  "legalDestination nextDay eng classesPerDay conflicts s =
     legalSlot (maxClassesPerDay (constraints eng)) classesPerDay conflicts
       (getDateRange nextDay (startDate eng) 14) (periodsOf (constraints eng)) s"





text \<open>
  The day counts of \<open>mutateSchedule\<close> after the class to move has been taken off its day;
  the invariant of the loop of \<open>generateInitialSolution\<close>, which ties its map of counts to
  the classes placed so far; and the array after \<open>newClasses[i] = { ...classToMove, date,
  period }\<close>.
\<close>

definition countsWithout :: "ScheduledClass list \<Rightarrow> nat \<Rightarrow> (int \<rightharpoonup> nat)" where
  "countsWithout cs i =
     (countPerDay cs)(dateKey (date (cs ! i)) \<mapsto>
        (if dayCount (countPerDay cs) (dateKey (date (cs ! i))) = 0 then 1
         else dayCount (countPerDay cs) (dateKey (date (cs ! i)))) - 1)"


definition moveTo :: "ScheduledClass list \<Rightarrow> nat \<Rightarrow> Slot \<Rightarrow> ScheduledClass list" where
  "moveTo cs i b = cs[i := (cs ! i)\<lparr> date := slotDate b, period := slotPeriod b \<rparr>]"



text \<open>
  \<open>extends h h'\<close>: the store \<open>h'\<close> is \<open>h\<close> with new cells added; every cell that existed
  before has kept its content.
\<close>

definition extends :: "store \<Rightarrow> store \<Rightarrow> bool" where
  "extends h h' = (length h \<le> length h' \<and> (\<forall>a < length h. h' ! a = h ! a))"

text \<open>
  \<open>sameButSlot x y\<close>: \<open>y\<close> is \<open>x\<close> up to its date and period. Two assignments differ in at
  most one class's slot when they have the same length and agree at every index but one,
  where they agree up to the slot.
\<close>

definition sameButSlot :: "ScheduledClass \<Rightarrow> ScheduledClass \<Rightarrow> bool" where
  "sameButSlot x y = (y\<lparr> date := date x, period := period x \<rparr> = x)"

definition differInAtMostOneSlot :: "ScheduledClass list \<Rightarrow> ScheduledClass list \<Rightarrow> bool" where
  "differInAtMostOneSlot xs ys =
     (length ys = length xs \<and>
      (\<exists>i \<in> {0..length xs}. \<forall>j < length xs.
          if j = i then sameButSlot (xs ! j) (ys ! j) else ys ! j = xs ! j))"

text \<open>The index drawn by \<open>Math.floor(Math.random() * newClasses.length)\<close>.\<close>

definition pickedIndex :: "Rand \<Rightarrow> Schedule \<Rightarrow> nat" where
  "pickedIndex r S = nat \<lfloor>pick r * real (length (classes S))\<rfloor>"

section \<open>Example data\<close>

text \<open>
  The start date is 2024-01-01, 00:00 UTC. Two classes of one grade group, scored on one
  day; constraint values that break every validity condition; and the two scenarios of the
  grade-group cohesion.
\<close>

definition day0 :: int where
  "day0 = 1704067200000"

definition exClass :: "string \<Rightarrow> string \<Rightarrow> string \<Rightarrow> Slot list \<Rightarrow> Class" where
  "exClass i grade grp conflicts =
     \<lparr> classId = i, name = i, gradeLevel = grade, gradeGroup = grp, teacher = ''T'',
       totalConflicts = conflicts, partialConflicts = [] \<rparr>"

definition exConstraints :: "int \<Rightarrow> int \<Rightarrow> ScheduleConstraints" where
  "exConstraints periodsPerDay classesPerDay =
     \<lparr> maxPeriodsPerDay = periodsPerDay, maxPeriodsPerWeek = periodsPerDay * 5,
       maxClassesPerDay = classesPerDay,
       consecutivePeriods = \<lparr> maximum = 2, requireBreak = 1 \<rparr>, blackoutPeriods = [] \<rparr>"

definition exPreferences :: SchedulePreferences where
  "exPreferences =
     \<lparr> gradeGroups = [], preferSameGradeInDay = True, preferredProgression = none \<rparr>"

definition twoClassEngine :: ScheduleEngine where
  "twoClassEngine =
     \<lparr> engineClasses = [exClass ''a'' ''1'' ''g'' [], exClass ''b'' ''2'' ''g'' []],
       startDate = day0, constraints = exConstraints 2 2 \<rparr>"

definition twoSameDay :: "ScheduledClass list" where
  "twoSameDay =
     [scheduleAt (exClass ''a'' ''1'' ''g'' []) \<lparr> slotDate = day0, slotPeriod = 1 \<rparr>,
      scheduleAt (exClass ''b'' ''2'' ''g'' []) \<lparr> slotDate = day0, slotPeriod = 2 \<rparr>]"

definition badConstraints :: ScheduleConstraints where
  "badConstraints =
     \<lparr> maxPeriodsPerDay = 9, maxPeriodsPerWeek = 50, maxClassesPerDay = 6,
       consecutivePeriods = \<lparr> maximum = 3, requireBreak = 0 \<rparr>, blackoutPeriods = [] \<rparr>"

definition twoGroupsTwoDays :: "ScheduledClass list" where
  "twoGroupsTwoDays =
     [scheduleAt (exClass ''a'' ''1'' ''lower'' []) \<lparr> slotDate = day0, slotPeriod = 1 \<rparr>,
      scheduleAt (exClass ''b'' ''4'' ''upper'' [])
        \<lparr> slotDate = day0 + 86400000, slotPeriod = 1 \<rparr>]"

definition twoGroupsEngine :: ScheduleEngine where
  "twoGroupsEngine =
     \<lparr> engineClasses = [exClass ''a'' ''1'' ''lower'' [], exClass ''b'' ''4'' ''upper'' []],
       startDate = day0, constraints = exConstraints 8 6 \<rparr>"

definition fourMixedOneDay :: "ScheduledClass list" where
  "fourMixedOneDay =
     [scheduleAt (exClass ''a'' ''1'' ''lower'' []) \<lparr> slotDate = day0, slotPeriod = 1 \<rparr>,
      scheduleAt (exClass ''b'' ''4'' ''upper'' []) \<lparr> slotDate = day0, slotPeriod = 2 \<rparr>,
      scheduleAt (exClass ''c'' ''2'' ''lower'' []) \<lparr> slotDate = day0, slotPeriod = 3 \<rparr>,
      scheduleAt (exClass ''d'' ''5'' ''upper'' []) \<lparr> slotDate = day0, slotPeriod = 4 \<rparr>]"

definition fourMixedEngine :: ScheduleEngine where
  "fourMixedEngine =
     \<lparr> engineClasses =
         [exClass ''a'' ''1'' ''lower'' [], exClass ''b'' ''4'' ''upper'' [],
          exClass ''c'' ''2'' ''lower'' [], exClass ''d'' ''5'' ''upper'' []],
       startDate = day0, constraints = exConstraints 8 6 \<rparr>"

text \<open>
  Two classes, one period a day, at most one class a day; class \<open>a\<close> may not sit in the
  first period of the start date. The draws are the calmest possible: no shuffle changes
  an order and every slot offered is taken.
\<close>

definition calmRand :: Rand where
  "calmRand =
     \<lparr> pick = 0, dateKeys = (\<lambda>i. i), periodKeys = (\<lambda>i. i), accept = (\<lambda>i j. 0),
       metropolis = 1 / 2 \<rparr>"


definition guardedEngine :: ScheduleEngine where
  "guardedEngine =
     \<lparr> engineClasses =
         [exClass ''a'' ''1'' ''g'' [\<lparr> slotDate = day0, slotPeriod = 1 \<rparr>],
          exClass ''b'' ''2'' ''g'' []],
       startDate = day0, constraints = exConstraints 1 1 \<rparr>"

definition guardedSchedule :: Schedule where
  "guardedSchedule =
     \<lparr> classes =
         [scheduleAt (exClass ''a'' ''1'' ''g'' [\<lparr> slotDate = day0, slotPeriod = 1 \<rparr>])
            \<lparr> slotDate = day0 + 86400000, slotPeriod = 1 \<rparr>,
          scheduleAt (exClass ''b'' ''2'' ''g'' []) \<lparr> slotDate = day0, slotPeriod = 1 \<rparr>],
       score =
         \<lparr> totalLength = Num 1, gradeGroupCohesion = Num (13 / 14), distributionQuality = Num 1,
           constraintViolations = Num 0, gradeProgression = Num 0,
           partialConflictPenalty = Num 0 \<rparr> \<rparr>"


text \<open>
  One class, one period a day, and a total conflict on the only period of each of the 14
  days of the window: no slot is legal, so the initial solution is empty.
\<close>

definition blockedEngine :: ScheduleEngine where
  "blockedEngine =
     \<lparr> engineClasses =
         [exClass ''a'' ''1'' ''g''
            (map (\<lambda>d. \<lparr> slotDate = d, slotPeriod = 1 \<rparr>) (getDateRange utcNextDay day0 14))],
       startDate = day0, constraints = exConstraints 1 6 \<rparr>"

text \<open>
  Two classes of one grade group, two periods a day. The initial solution puts both on the
  start date; the first mutation moves class \<open>a\<close> to the next day, which lowers the
  aggregate, and the draw of the acceptance test lets it pass.
\<close>

definition reversedRand :: Rand where
  "reversedRand = calmRand\<lparr> periodKeys := (\<lambda>i. 2 - i) \<rparr>"

definition driftRand :: Rand where
  "driftRand = calmRand\<lparr> dateKeys := (\<lambda>i. if i = 1 then 0 else i + 1), metropolis := 0 \<rparr>"

definition driftOracle :: Oracle where
  "driftOracle =
     \<lparr> initRand = (\<lambda>i. if i = 1 then reversedRand else calmRand), iterRand = (\<lambda>i. driftRand) \<rparr>"

definition pairInitial :: Schedule where
  "pairInitial =
     \<lparr> classes = twoSameDay,
       score =
         \<lparr> totalLength = Num 1, gradeGroupCohesion = Num 1, distributionQuality = Num 1,
           constraintViolations = Num 0, gradeProgression = Num 1,
           partialConflictPenalty = Num 0 \<rparr> \<rparr>"

definition pairDrifted :: Schedule where
  "pairDrifted =
     \<lparr> classes =
         [scheduleAt (exClass ''a'' ''1'' ''g'' []) \<lparr> slotDate = day0 + 86400000, slotPeriod = 1 \<rparr>,
          scheduleAt (exClass ''b'' ''2'' ''g'' []) \<lparr> slotDate = day0, slotPeriod = 2 \<rparr>],
       score =
         \<lparr> totalLength = Num 1, gradeGroupCohesion = Num (13 / 14),
           distributionQuality = Num (1 / 2), constraintViolations = Num 0,
           gradeProgression = Num 0, partialConflictPenalty = Num 0 \<rparr> \<rparr>"




text \<open>
  The schedule of the worked run as objects in a store, draws that pick class \<open>b\<close> and look
  at the last day of the window first, and the store after the mutation.
\<close>

definition farRand :: Rand where
  "farRand = calmRand\<lparr> pick := 1 / 2, dateKeys := (\<lambda>i. 14 - i) \<rparr>"

definition guardedStore :: store where
  "guardedStore =
     [ClassCell (classes guardedSchedule ! 0), ClassCell (classes guardedSchedule ! 1),
      ArrayCell [0, 1], ScoreCell (score guardedSchedule), ScheduleCell 2 3]"

definition movedStore :: store where
  "movedStore =
     guardedStore @
     [ArrayCell [0, 6],
      ClassCell ((classes guardedSchedule ! 1)\<lparr> date := day0 + 13 * 86400000, period := 1 \<rparr>),
      ScoreCell
        \<lparr> totalLength = Num 1, gradeGroupCohesion = Num (1 / 7), distributionQuality = Num 1,
          constraintViolations = Num 0, gradeProgression = Num 0,
          partialConflictPenalty = Num 0 \<rparr>,
      ScheduleCell 5 7]"






chapter \<open>Properties\<close>

section \<open>Properties of the slot search\<close>

lemma set_shuffle: "set (shuffle keys xs) = set xs"
proof -
  have "set (map snd (zip (map keys [0..<length xs]) xs)) = set xs"
    by (simp add: map_snd_zip del: set_map)
  then have "snd ` set (zip (map keys [0..<length xs]) xs) = set xs"
    by (simp only: set_map)
  then show ?thesis
    by (simp add: shuffle_def)
qed

lemma length_shuffle: "length (shuffle keys xs) = length xs"
  by (simp add: shuffle_def)

lemma scanPeriods_slots:
  "scanPeriods conflicts d draws j ps best = (best', chosen) \<Longrightarrow>
   (best' = best \<or> (best = None \<and> (\<exists>p \<in> set ps. best' = Some \<lparr> slotDate = d, slotPeriod = p \<rparr> \<and>
        \<not> hasTotalConflict conflicts d p))) \<and>
   (\<forall>s. chosen = Some s \<longrightarrow> (\<exists>p \<in> set ps. s = \<lparr> slotDate = d, slotPeriod = p \<rparr> \<and>
        \<not> hasTotalConflict conflicts d p))"
proof (induction ps arbitrary: j best)
  case Nil
  then show ?case by simp
next
  case (Cons p ps)
  show ?case
  proof (cases "hasTotalConflict conflicts d p")
    case True
    with Cons.prems have "scanPeriods conflicts d draws (Suc j) ps best = (best', chosen)"
      by simp
    from Cons.IH [OF this] show ?thesis by auto
  next
    case False
    define b where "b = (case best of None \<Rightarrow> Some \<lparr> slotDate = d, slotPeriod = p \<rparr> | Some x \<Rightarrow> Some x)"
    have b: "b = best \<or> (best = None \<and> b = Some \<lparr> slotDate = d, slotPeriod = p \<rparr>)"
      by (auto simp: b_def split: option.splits)
    show ?thesis
    proof (cases "draws j < 0.99")
      case True
      with False Cons.prems have "best' = b" "chosen = Some \<lparr> slotDate = d, slotPeriod = p \<rparr>"
        by (simp_all add: b_def Let_def)
      with b False show ?thesis by auto
    next
      case nacc: False
      with False Cons.prems have "scanPeriods conflicts d draws (Suc j) ps b = (best', chosen)"
        by (simp add: b_def Let_def)
      from Cons.IH [OF this] b False show ?thesis by auto
    qed
  qed
qed

lemma scanPeriods_none:
  "\<forall>p \<in> set ps. hasTotalConflict conflicts d p \<Longrightarrow>
   scanPeriods conflicts d draws j ps best = (best, None)"
  by (induction ps arbitrary: j) auto

lemma scanDates_slots:
  "scanDates maxPerDay perDay conflicts draws i ds ps best = (best', chosen) \<Longrightarrow>
   (best' = best \<or> (best = None \<and> (\<exists>s. best' = Some s \<and> legalSlot maxPerDay perDay conflicts ds ps s))) \<and>
   (\<forall>s. chosen = Some s \<longrightarrow> legalSlot maxPerDay perDay conflicts ds ps s)"
proof (induction ds arbitrary: i best)
  case Nil
  then show ?case by simp
next
  case (Cons d ds)
  have mono: "\<And>s. legalSlot maxPerDay perDay conflicts ds ps s \<Longrightarrow>
      legalSlot maxPerDay perDay conflicts (d # ds) ps s"
    by (simp add: legalSlot_def)
  show ?case
  proof (cases "int (dayCount perDay (dateKey d)) \<ge> maxPerDay")
    case True
    with Cons.prems have "scanDates maxPerDay perDay conflicts draws (Suc i) ds ps best = (best', chosen)"
      by simp
    from Cons.IH [OF this] mono show ?thesis by blast
  next
    case False
    obtain b c where sp: "scanPeriods conflicts d (draws i) 0 ps best = (b, c)"
      by (cases "scanPeriods conflicts d (draws i) 0 ps best") auto
    have here: "\<And>p. p \<in> set ps \<Longrightarrow> \<not> hasTotalConflict conflicts d p \<Longrightarrow>
        legalSlot maxPerDay perDay conflicts (d # ds) ps \<lparr> slotDate = d, slotPeriod = p \<rparr>"
      using False by (simp add: legalSlot_def)
    from scanPeriods_slots [OF sp] here
    have b: "b = best \<or> (best = None \<and> (\<exists>s. b = Some s \<and> legalSlot maxPerDay perDay conflicts (d # ds) ps s))"
      and c: "\<forall>s. c = Some s \<longrightarrow> legalSlot maxPerDay perDay conflicts (d # ds) ps s"
      by blast+
    show ?thesis
    proof (cases c)
      case (Some s)
      with False sp Cons.prems have "best' = b" "chosen = c" by simp_all
      with b c show ?thesis by blast
    next
      case None
      with False sp Cons.prems
      have "scanDates maxPerDay perDay conflicts draws (Suc i) ds ps b = (best', chosen)"
        by simp
      from Cons.IH [OF this] mono b show ?thesis by blast
    qed
  qed
qed

lemma scanDates_none:
  "\<forall>s. \<not> legalSlot maxPerDay perDay conflicts ds ps s \<Longrightarrow>
   scanDates maxPerDay perDay conflicts draws i ds ps best = (best, None)"
proof (induction ds arbitrary: i)
  case Nil
  then show ?case by simp
next
  case (Cons d ds)
  have rest: "\<forall>s. \<not> legalSlot maxPerDay perDay conflicts ds ps s"
    using Cons.prems by (auto simp: legalSlot_def)
  show ?case
  proof (cases "int (dayCount perDay (dateKey d)) \<ge> maxPerDay")
    case True
    then show ?thesis using Cons.IH [OF rest] by simp
  next
    case False
    have "\<forall>p \<in> set ps. hasTotalConflict conflicts d p"
    proof
      fix p assume "p \<in> set ps"
      with Cons.prems [rule_format, of "\<lparr> slotDate = d, slotPeriod = p \<rparr>"] False
      show "hasTotalConflict conflicts d p" by (simp add: legalSlot_def)
    qed
    then have "scanPeriods conflicts d (draws i) 0 ps best = (best, None)"
      by (rule scanPeriods_none)
    then show ?thesis using False Cons.IH [OF rest] by simp
  qed
qed

section \<open>Construction and constraint values\<close>

text \<open>
  C7, as stated, fails: constraints that break every validity condition are accepted, and
  the constructor returns an engine holding them.
\<close>

theorem constructor_accepts_invalid_constraints:
  "\<not> validConstraints badConstraints \<and>
   newScheduleEngine [exClass ''a'' ''1'' ''g'' []] day0 badConstraints exPreferences =
     Inr \<lparr> engineClasses = [exClass ''a'' ''1'' ''g'' []], startDate = day0,
           constraints = badConstraints \<rparr>"
  by (simp add: validConstraints_def badConstraints_def newScheduleEngine_def)

text \<open>
  C7, amended: constructing the schedule engine validates nothing. For all classes, start
  date, constraints and preferences the constructor returns an engine that holds the
  classes, the start date and the constraints as given; it never raises a
  \<open>ConfigurationError\<close>.
\<close>

theorem constructor_never_validates:
  "newScheduleEngine cs sd k prefs = Inr \<lparr> engineClasses = cs, startDate = sd, constraints = k \<rparr> \<and>
   newScheduleEngine cs sd k prefs \<noteq> Inl ConfigurationError"
  by (simp add: newScheduleEngine_def)

section \<open>The aggregate score\<close>

text \<open>
  C6, as stated, fails in its second half: an engine built with the preference \<open>none\<close>
  scores two classes of one day in rising grade order with a grade progression of 1, and
  the aggregate counts it with weight 0.4.
\<close>

theorem progression_counted_under_none:
  "preferredProgression exPreferences = none \<and>
   newScheduleEngine [exClass ''a'' ''1'' ''g'' [], exClass ''b'' ''2'' ''g'' []] day0
       (exConstraints 2 2) exPreferences = Inr twoClassEngine \<and>
   gradeProgression (calculateScore twoClassEngine twoSameDay) = Num 1 \<and>
   aggregateScore (calculateScore twoClassEngine twoSameDay) = Num (11 / 5) \<and>
   aggregateWithoutProgression (calculateScore twoClassEngine twoSameDay) = Num (9 / 5)"
proof -
  have "preferredProgression exPreferences = none"
    by (simp add: exPreferences_def)
  moreover have "newScheduleEngine [exClass ''a'' ''1'' ''g'' [], exClass ''b'' ''2'' ''g'' []] day0
       (exConstraints 2 2) exPreferences = Inr twoClassEngine"
    by (simp add: newScheduleEngine_def twoClassEngine_def)
  moreover have "gradeProgression (calculateScore twoClassEngine twoSameDay) = Num 1"
    by code_simp
  moreover have "aggregateScore (calculateScore twoClassEngine twoSameDay) = Num (11 / 5)"
    by code_simp
  moreover have "aggregateWithoutProgression (calculateScore twoClassEngine twoSameDay) = Num (9 / 5)"
    by code_simp
  ultimately show ?thesis by blast
qed

text \<open>
  C6, amended: the aggregate is the sum of the components times the weights
  totalLength 1, gradeGroupCohesion 0.5, distributionQuality 0.3, constraintViolations -100,
  gradeProgression 0.4 and partialConflictPenalty 0, added in this order from 0 (for finite
  components, the real weighted sum). The preferences do not enter: the engine built from
  them is the same for every preference, so the grade progression is scored and weighted
  0.4 also under \<open>none\<close>.
\<close>

theorem aggregate_is_weighted_sum:
  "aggregateScore s =
     jadd (jadd (jadd (jadd (jadd (jadd (Num 0)
       (jmul (totalLength s) (Num 1)))
       (jmul (gradeGroupCohesion s) (Num 0.5)))
       (jmul (distributionQuality s) (Num 0.3)))
       (jmul (constraintViolations s) (Num (- 100))))
       (jmul (gradeProgression s) (Num 0.4)))
       (jmul (partialConflictPenalty s) (Num 0)) \<and>
   aggregateScore \<lparr> totalLength = Num a, gradeGroupCohesion = Num b, distributionQuality = Num c,
      constraintViolations = Num v, gradeProgression = Num g, partialConflictPenalty = Num p \<rparr> =
     Num (1 * a + 0.5 * b + 0.3 * c - 100 * v + 0.4 * g + 0 * p) \<and>
   newScheduleEngine cs sd k prefs =
     newScheduleEngine cs sd k (prefs\<lparr> preferredProgression := none \<rparr>)"
  by (simp add: aggregateScore_def weights_def newScheduleEngine_def)

section \<open>Grade-group cohesion\<close>

text \<open>
  C3 on the code: \<open>calculateScore\<close> measures the mean distance in time inside each grade
  group. Two classes of different groups on two days make no pair, so the cohesion is 0
  (the claim says 1.0); four classes, two and two, on one day are at distance 0 inside
  each group, so the cohesion is 1 (the claim says 0.5).
\<close>

theorem cohesion_of_the_two_scenarios:
  "gradeGroupCohesion (calculateScore twoGroupsEngine twoGroupsTwoDays) = Num 0 \<and>
   gradeGroupCohesion (calculateScore fourMixedEngine fourMixedOneDay) = Num 1"
proof -
  have "gradeGroupCohesion (calculateScore twoGroupsEngine twoGroupsTwoDays) = Num 0"
    by code_simp
  moreover have "gradeGroupCohesion (calculateScore fourMixedEngine fourMixedOneDay) = Num 1"
    by code_simp
  ultimately show ?thesis by blast
qed

section \<open>Invariants of the initial solution\<close>

lemma legalSlot_shuffle:
  "legalSlot m pd cf (shuffle k1 ds) (shuffle k2 ps) s = legalSlot m pd cf ds ps s"
  by (simp add: legalSlot_def set_shuffle)

lemma findSlot_slots:
  assumes "findSlot nextDay r eng perDay conflicts = (best, chosen)"
  shows "(\<forall>s. best = Some s \<longrightarrow> legalDestination nextDay eng perDay conflicts s) \<and>
         (\<forall>s. chosen = Some s \<longrightarrow> legalDestination nextDay eng perDay conflicts s)"
proof -
  from assms have "scanDates (maxClassesPerDay (constraints eng)) perDay conflicts (accept r) 0
      (shuffle (dateKeys r) (getDateRange nextDay (startDate eng) 14))
      (shuffle (periodKeys r) (periodsOf (constraints eng))) None = (best, chosen)"
    by (simp add: findSlot_def Let_def)
  from scanDates_slots [OF this] show ?thesis
    by (auto simp: legalDestination_def legalSlot_shuffle)
qed

lemma findSlot_none:
  assumes "\<forall>s. \<not> legalDestination nextDay eng perDay conflicts s"
  shows "findSlot nextDay r eng perDay conflicts = (None, None)"
proof -
  from assms have "\<forall>s. \<not> legalSlot (maxClassesPerDay (constraints eng)) perDay conflicts
      (shuffle (dateKeys r) (getDateRange nextDay (startDate eng) 14))
      (shuffle (periodKeys r) (periodsOf (constraints eng))) s"
    by (simp add: legalDestination_def legalSlot_shuffle)
  then show ?thesis
    by (simp add: findSlot_def Let_def scanDates_none)
qed

lemma classesOn_Nil [simp]: "classesOn k [] = 0"
  by (simp add: classesOn_def)

















lemma date_scheduleAt [simp]: "date (scheduleAt c s) = slotDate s"
  by (simp add: scheduleAt_def)




section \<open>Invariants of the mutation\<close>



lemma length_moveTo [simp]: "length (moveTo cs i b) = length cs"
  by (simp add: moveTo_def)





section \<open>Properties of the annealing loop\<close>






lemma mutateSchedule_error:
  "mutateSchedule nextDay r eng S = Inl e \<Longrightarrow> e = TypeError"
  by (auto simp: mutateSchedule_def Let_def split: if_splits option.splits)

lemma annealStep_error:
  "annealStep nextDay r eng st = Inl e \<Longrightarrow> e = TypeError"
  by (auto simp: annealStep_def Let_def split: sum.splits if_splits dest: mutateSchedule_error)

lemma annealLoop_error:
  "annealLoop nextDay rs eng st = Inl e \<Longrightarrow> e = TypeError"
proof (induction nextDay rs eng st rule: annealLoop.induct)
  case (1 nextDay rs eng st)
  show ?case
  proof (cases "loopCondition st")
    case False
    with "1.prems" show ?thesis by (simp add: annealLoop.simps)
  next
    case True
    show ?thesis
    proof (cases "annealStep nextDay (rs (iterations st)) eng st")
      case (Inl e')
      with True "1.prems" have "e' = e" by (simp add: annealLoop.simps)
      with Inl show ?thesis by (auto dest: annealStep_error)
    next
      case (Inr st1)
      with True "1.prems"(1) have "annealLoop nextDay rs eng st1 = Inl e"
        by (simp add: annealLoop.simps)
      with "1.IH" [OF True Inr] show ?thesis by blast
    qed
  qed
qed




lemma loopCondition_initialState [simp]: "loopCondition (initialState S)"
  by (simp add: loopCondition_def initialState_def MAX_ITERATIONS_def
      maxIterationsWithoutImprovement_def)


lemma mutateSchedule_empty:
  "classes S = [] \<Longrightarrow> mutateSchedule nextDay r eng S = Inl TypeError"
  by (simp add: mutateSchedule_def Let_def)

lemma annealLoop_empty:
  assumes "classes S = []"
  shows "annealLoop nextDay rs eng (initialState S) = Inl TypeError"
proof -
  have "annealStep nextDay (rs 0) eng (initialState S) = Inl TypeError"
    using assms by (simp add: annealStep_def Let_def initialState_def mutateSchedule_empty)
  then show ?thesis
    by (subst annealLoop.simps) (simp add: initialState_def [where s = S, symmetric], simp add: initialState_def)
qed

section \<open>Runs that settle\<close>

text \<open>
  A state whose current schedule is mapped to itself by every mutation and does not beat
  the best score only counts iterations until the stall limit ends the loop.
\<close>

lemma annealStep_steady:
  assumes mut: "mutateSchedule nextDay r eng (currentSchedule st) = Inr (currentSchedule st)"
    and cur: "aggregateScore (score (currentSchedule st)) = Num v"
    and best: "bestScore st = Num w" "v \<le> w"
    and draw: "metropolis r < 1"
  shows "annealStep nextDay r eng st = Inr (st\<lparr> iterations := iterations st + 1 \<rparr>)"
proof -
  have "jexp (jdiv (jsub (Num v) (Num v)) (Num (1.0 * 0.995 ^ iterations st))) = Num 1"
    by (simp add: jsub_def)
  with draw have acc: "jless (Num (metropolis r))
      (jexp (jdiv (jsub (Num v) (Num v)) (Num (1.0 * 0.995 ^ iterations st))))"
    by simp
  from best have nb: "\<not> jgt (Num v) (bestScore st)"
    by (simp add: jgt_def)
  have "st\<lparr> iterations := iterations st + 1, currentSchedule := currentSchedule st \<rparr> =
        st\<lparr> iterations := iterations st + 1 \<rparr>"
    by simp
  with mut cur acc nb show ?thesis
    by (simp add: annealStep_def Let_def)
qed

lemma annealLoop_steady:
  assumes "\<And>i. mutateSchedule nextDay (rs i) eng (currentSchedule st) = Inr (currentSchedule st)"
    and "aggregateScore (score (currentSchedule st)) = Num v"
    and "bestScore st = Num w" and "v \<le> w"
    and "\<And>i. metropolis (rs i) < 1"
  shows "\<exists>n. annealLoop nextDay rs eng st = Inr (st\<lparr> iterations := n \<rparr>)"
  using assms
proof (induction nextDay rs eng st rule: annealLoop.induct)
  case (1 nextDay rs eng st)
  show ?case
  proof (cases "loopCondition st")
    case False
    then have "annealLoop nextDay rs eng st = Inr (st\<lparr> iterations := iterations st \<rparr>)"
      by (simp add: annealLoop.simps)
    then show ?thesis by blast
  next
    case True
    let ?st1 = "st\<lparr> iterations := iterations st + 1 \<rparr>"
    have step: "annealStep nextDay (rs (iterations st)) eng st = Inr ?st1"
      using "1.prems"(1) [of "iterations st"] "1.prems"(2,3,4) "1.prems"(5) [of "iterations st"]
      by (rule annealStep_steady)
    have "\<exists>n. annealLoop nextDay rs eng ?st1 = Inr (?st1\<lparr> iterations := n \<rparr>)"
      using "1.prems" by (intro "1.IH" [OF True step]) simp_all
    with True step show ?thesis
      by (simp add: annealLoop.simps)
  qed
qed


lemma run_settles_after_first_step:
  assumes step: "annealStep nextDay (iterRand orc 0) eng
        (initialState (generateInitialSolution nextDay (initRand orc) eng)) = Inr st1"
    and mut: "\<And>i. mutateSchedule nextDay (iterRand orc i) eng (currentSchedule st1) =
        Inr (currentSchedule st1)"
    and agg: "aggregateScore (score (currentSchedule st1)) = Num v"
    and best: "bestScore st1 = Num w" "v \<le> w"
    and draw: "\<And>i. metropolis (iterRand orc i) < 1"
  shows "\<exists>n. runAnnealer nextDay orc eng = Inr (st1\<lparr> iterations := n \<rparr>)"
proof -
  let ?S0 = "generateInitialSolution nextDay (initRand orc) eng"
  have "\<exists>n. annealLoop nextDay (iterRand orc) eng st1 = Inr (st1\<lparr> iterations := n \<rparr>)"
    using mut agg best draw by (rule annealLoop_steady)
  moreover have "annealLoop nextDay (iterRand orc) eng (initialState ?S0) =
      annealLoop nextDay (iterRand orc) eng st1"
  proof -
    have "iterations (initialState ?S0) = 0" by (simp add: initialState_def)
    with step show ?thesis
      by (subst annealLoop.simps) simp
  qed
  ultimately show ?thesis by (simp add: runAnnealer_def)
qed



section \<open>A worked run\<close>






section \<open>Total conflicts\<close>











section \<open>The cap on classes per day\<close>




section \<open>Termination of the search\<close>

lemma generateSchedule_empty_initial:
  assumes "classes (generateInitialSolution nextDay (initRand orc) eng) = []"
  shows "generateSchedule nextDay orc eng = Inl TypeError"
  using annealLoop_empty [OF assms] by (simp add: generateSchedule_def runAnnealer_def)




section \<open>Catalogues the search cannot start from\<close>

lemma blocked_no_slot:
  "\<not> legalDestination utcNextDay blockedEngine perDay
      (map (\<lambda>d. \<lparr> slotDate = d, slotPeriod = 1 \<rparr>) (getDateRange utcNextDay day0 14)) s"
proof
  assume l: "legalDestination utcNextDay blockedEngine perDay
      (map (\<lambda>d. \<lparr> slotDate = d, slotPeriod = 1 \<rparr>) (getDateRange utcNextDay day0 14)) s"
  then have d: "slotDate s \<in> set (getDateRange utcNextDay day0 14)"
    and p: "slotPeriod s \<in> set (periodsOf (exConstraints 1 6))"
    and free: "\<not> hasTotalConflict
        (map (\<lambda>d. \<lparr> slotDate = d, slotPeriod = 1 \<rparr>) (getDateRange utcNextDay day0 14))
        (slotDate s) (slotPeriod s)"
    by (simp_all add: legalDestination_def legalSlot_def blockedEngine_def)
  from p have "slotPeriod s = 1"
    by (simp add: periodsOf_def exConstraints_def)
  with d have "hasTotalConflict
        (map (\<lambda>d. \<lparr> slotDate = d, slotPeriod = 1 \<rparr>) (getDateRange utcNextDay day0 14))
        (slotDate s) (slotPeriod s)"
    by (auto simp: hasTotalConflict_def list_ex_iff)
  with free show False by simp
qed

text \<open>
  C10 on the code: the catalogue is not empty, yet whatever the draws are, no class is
  placed, and the first mutation reads \<open>newClasses[0]\<close> of an empty array and throws.
\<close>

theorem nonempty_catalogue_can_fault:
  "engineClasses blockedEngine \<noteq> [] \<and>
   (\<forall>orc. classes (generateInitialSolution utcNextDay (initRand orc) blockedEngine) = [] \<and>
          generateSchedule utcNextDay orc blockedEngine = Inl TypeError)"
proof (intro conjI allI)
  show "engineClasses blockedEngine \<noteq> []"
    by (simp add: blockedEngine_def)
next
  fix orc :: Oracle
  have "findSlot utcNextDay r blockedEngine Map.empty
      (map (\<lambda>d. \<lparr> slotDate = d, slotPeriod = 1 \<rparr>) (getDateRange utcNextDay day0 14)) = (None, None)" for r
    by (rule findSlot_none) (simp add: blocked_no_slot)
  then show e: "classes (generateInitialSolution utcNextDay (initRand orc) blockedEngine) = []"
    by (simp add: generateInitialSolution_def placeClass_def blockedEngine_def exClass_def)
  then show "generateSchedule utcNextDay orc blockedEngine = Inl TypeError"
    by (rule generateSchedule_empty_initial)
qed

section \<open>Tracking the best schedule\<close>

lemma pair_initial:
  "generateInitialSolution utcNextDay (initRand driftOracle) twoClassEngine = pairInitial"
  by code_simp

lemma pair_first_mutation:
  "mutateSchedule utcNextDay driftRand twoClassEngine pairInitial = Inr pairDrifted"
  by code_simp

lemma pair_later_mutation:
  "mutateSchedule utcNextDay driftRand twoClassEngine pairDrifted = Inr pairDrifted"
  by code_simp

lemma pair_initial_aggregate: "aggregateScore (score pairInitial) = Num (11 / 5)"
  by code_simp

lemma pair_drifted_aggregate: "aggregateScore (score pairDrifted) = Num (113 / 70)"
  by code_simp

lemma pair_first_step:
  "annealStep utcNextDay driftRand twoClassEngine (initialState pairInitial) =
     Inr \<lparr> iterations = 1, bestScore = Num (113 / 70), lastImprovement = 0,
           currentSchedule = pairDrifted, bestSchedule = pairDrifted \<rparr>"
  by (simp add: annealStep_def Let_def initialState_def pair_first_mutation
      pair_initial_aggregate pair_drifted_aggregate jgt_def jsub_def)
     (simp add: driftRand_def)

text \<open>
  C2 on the code: \<open>bestScore\<close> starts at \<open>-Infinity\<close>, not at the score of the initial
  solution, so the first accepted candidate replaces the best schedule although its
  aggregate (113/70) is below that of the best schedule so far (the initial solution,
  11/5). Nothing better is found afterwards, and the run returns a schedule that is worse
  than the initial solution it started from.
\<close>

theorem returned_schedule_worse_than_initial:
  "generateInitialSolution utcNextDay (initRand driftOracle) twoClassEngine = pairInitial \<and>
   annealStep utcNextDay (iterRand driftOracle 0) twoClassEngine (initialState pairInitial) =
     Inr \<lparr> iterations = 1, bestScore = Num (113 / 70), lastImprovement = 0,
           currentSchedule = pairDrifted, bestSchedule = pairDrifted \<rparr> \<and>
   generateSchedule utcNextDay driftOracle twoClassEngine = Inr pairDrifted \<and>
   aggregateScore (score pairInitial) = Num (11 / 5) \<and>
   aggregateScore (score pairDrifted) = Num (113 / 70) \<and>
   jless (aggregateScore (score pairDrifted)) (aggregateScore (score pairInitial))"
proof -
  let ?st1 = "\<lparr> iterations = 1, bestScore = Num (113 / 70), lastImprovement = 0,
           currentSchedule = pairDrifted, bestSchedule = pairDrifted \<rparr>"
  have it: "iterRand driftOracle i = driftRand" for i
    by (simp add: driftOracle_def)
  have step: "annealStep utcNextDay (iterRand driftOracle 0) twoClassEngine
      (initialState (generateInitialSolution utcNextDay (initRand driftOracle) twoClassEngine)) =
      Inr ?st1"
    by (simp add: it pair_initial pair_first_step)
  have "\<exists>n. runAnnealer utcNextDay driftOracle twoClassEngine = Inr (?st1\<lparr> iterations := n \<rparr>)"
    using step
  proof (rule run_settles_after_first_step)
    show "mutateSchedule utcNextDay (iterRand driftOracle i) twoClassEngine (currentSchedule ?st1) =
        Inr (currentSchedule ?st1)" for i
      by (simp add: it pair_later_mutation)
    show "aggregateScore (score (currentSchedule ?st1)) = Num (113 / 70)"
      by (simp add: pair_drifted_aggregate)
    show "bestScore ?st1 = Num (113 / 70)" by simp
    show "(113 / 70 :: real) \<le> 113 / 70" by simp
    show "metropolis (iterRand driftOracle i) < 1" for i
      by (simp add: it driftRand_def)
  qed
  then have "generateSchedule utcNextDay driftOracle twoClassEngine = Inr pairDrifted"
    by (auto simp: generateSchedule_def)
  with step show ?thesis
    by (simp add: pair_initial pair_initial_aggregate pair_drifted_aggregate)
qed

section \<open>Failures in the multi-run aggregator\<close>





section \<open>Mutation on the object store\<close>

lemma extends_refl [simp]: "extends h h"
  by (simp add: extends_def)

lemma extends_trans: "extends h h1 \<Longrightarrow> extends h1 h2 \<Longrightarrow> extends h h2"
  by (auto simp: extends_def)

lemma extends_append [simp]: "extends h (h @ cs)"
  by (simp add: extends_def nth_append)

lemma extends_update_new: "length h \<le> a \<Longrightarrow> extends h (h'[a := c]) = extends h h'"
  by (auto simp: extends_def)

lemma readCell_extends: "extends h h' \<Longrightarrow> readCell h a = Some c \<Longrightarrow> readCell h' a = Some c"
  by (auto simp: extends_def readCell_def split: if_splits)

lemma readClass_extends: "extends h h' \<Longrightarrow> readClass h a = Some c \<Longrightarrow> readClass h' a = Some c"
  by (auto simp: readClass_def split: option.splits cell.splits dest: readCell_extends)

lemma readClasses_extends:
  "extends h h' \<Longrightarrow> readClasses h refs = Some cs \<Longrightarrow> readClasses h' refs = Some cs"
proof (induction refs arbitrary: cs)
  case Nil
  then show ?case by simp
next
  case (Cons a refs)
  from Cons.prems(2) obtain c cs' where c: "readClass h a = Some c"
    and cs': "readClasses h refs = Some cs'" and cs: "cs = c # cs'"
    by (auto split: option.splits)
  from readClass_extends [OF Cons.prems(1) c] Cons.IH [OF Cons.prems(1) cs'] cs
  show ?case by simp
qed

lemma readArray_extends: "extends h h' \<Longrightarrow> readArray h a = Some c \<Longrightarrow> readArray h' a = Some c"
  by (auto simp: readArray_def split: option.splits cell.splits dest: readCell_extends)

lemma readScore_extends: "extends h h' \<Longrightarrow> readScore h a = Some c \<Longrightarrow> readScore h' a = Some c"
  by (auto simp: readScore_def split: option.splits cell.splits dest: readCell_extends)

lemma readSchedule_extends:
  assumes "extends h h'" and "readSchedule h a = Some S"
  shows "readSchedule h' a = Some S"
proof -
  from assms(2) obtain arr sc refs cs s where
    a: "readCell h a = Some (ScheduleCell arr sc)" and r: "readArray h arr = Some refs"
    and c: "readClasses h refs = Some cs" and s: "readScore h sc = Some s"
    and S: "S = \<lparr> classes = cs, score = s \<rparr>"
    by (auto simp: readSchedule_def split: option.splits cell.splits)
  from readCell_extends [OF assms(1) a] readArray_extends [OF assms(1) r]
    readClasses_extends [OF assms(1) c] readScore_extends [OF assms(1) s] S
  show ?thesis by (simp add: readSchedule_def)
qed

lemma readClasses_length: "readClasses h refs = Some cs \<Longrightarrow> length cs = length refs"
  by (induction refs arbitrary: cs) (auto split: option.splits)

lemma readClasses_update:
  "readClasses h refs = Some cs \<Longrightarrow> readClass h obj = Some moved \<Longrightarrow>
   readClasses h (refs[i := obj]) = Some (cs[i := moved])"
proof (induction refs arbitrary: cs i)
  case Nil
  then show ?case by simp
next
  case (Cons a refs)
  from Cons.prems(1) obtain c cs' where c: "readClass h a = Some c"
    and cs': "readClasses h refs = Some cs'" and cs: "cs = c # cs'"
    by (auto split: option.splits)
  show ?case
  proof (cases i)
    case 0
    with c cs' cs Cons.prems(2) show ?thesis by simp
  next
    case (Suc j)
    with c cs cs' Cons.IH [OF cs' Cons.prems(2), of j] show ?thesis by simp
  qed
qed

lemma store_moved:
  "(h @ [ArrayCell refs, ClassCell moved])[length h := ArrayCell refs'] @
     [ScoreCell x, ScheduleCell (length h) (Suc (Suc (length h)))] =
   h @ [ArrayCell refs', ClassCell moved, ScoreCell x,
        ScheduleCell (length h) (Suc (Suc (length h)))]"
  by (simp add: list_update_append)

lemma storeMovedEntry_None [simp]:
  "storeMovedEntry h1 newClasses refs entries i None = (h1, entries)"
  by (simp add: storeMovedEntry_def)

lemma storeMovedEntry_Some:
  "storeMovedEntry (h @ [ArrayCell refs]) (length h) refs entries i (Some b) =
     (h @ [ArrayCell (refs[i := Suc (length h)]),
           ClassCell ((entries ! i)\<lparr> date := slotDate b, period := slotPeriod b \<rparr>)],
      moveTo entries i b)"
  by (simp add: storeMovedEntry_def alloc_def moveTo_def list_update_append Let_def)

lemma storeNewSchedule_eq:
  "storeNewSchedule eng h2 newClasses entries =
     (h2 @ [ScoreCell (calculateScore eng entries), ScheduleCell newClasses (length h2)],
      Inr (Suc (length h2)))"
  by (simp add: storeNewSchedule_def alloc_def)

lemma mutateScheduleStore_read:
  assumes "readCell h a = Some (ScheduleCell arr sc)" and "readArray h arr = Some refs"
    and "readClasses h refs = Some cs"
  shows "mutateScheduleStore nextDay r eng h a =
     mutateCopy nextDay r eng (h @ [ArrayCell refs]) a (length h) refs cs"
  using assms by (simp add: mutateScheduleStore_def alloc_def)

lemma mutateCopy_range:
  assumes "\<lfloor>pick r * real (length refs)\<rfloor> < 0 \<or> int (length refs) \<le> \<lfloor>pick r * real (length refs)\<rfloor>"
  shows "mutateCopy nextDay r eng h1 a n refs cs = (h1, Inl TypeError)"
  using assms by (simp add: mutateCopy_def Let_def)

lemma mutateCopy_missing:
  assumes "\<not> (\<lfloor>pick r * real (length refs)\<rfloor> < 0 \<or> int (length refs) \<le> \<lfloor>pick r * real (length refs)\<rfloor>)"
    and "findClass (engineClasses eng) (classId (cs ! nat \<lfloor>pick r * real (length refs)\<rfloor>)) = None"
  shows "mutateCopy nextDay r eng h1 a n refs cs = (h1, Inr a)"
  using assms by (simp add: mutateCopy_def Let_def)

lemma mutateCopy_found:
  assumes "\<not> (\<lfloor>pick r * real (length refs)\<rfloor> < 0 \<or> int (length refs) \<le> \<lfloor>pick r * real (length refs)\<rfloor>)"
    and "findClass (engineClasses eng) (classId (cs ! nat \<lfloor>pick r * real (length refs)\<rfloor>)) = Some orig"
    and "storeMovedEntry h1 n refs cs (nat \<lfloor>pick r * real (length refs)\<rfloor>)
           (fst (findSlot nextDay r eng (countsWithout cs (nat \<lfloor>pick r * real (length refs)\<rfloor>))
                  (totalConflicts orig))) = (h2, cs')"
  shows "mutateCopy nextDay r eng h1 a n refs cs = storeNewSchedule eng h2 n cs'"
  using assms by (simp add: mutateCopy_def Let_def countsWithout_def)

lemma mutateScheduleStore_refines:
  assumes rd: "readSchedule h a = Some S"
    and run: "mutateScheduleStore nextDay r eng h a = (h', out)"
  shows "extends h h' \<and> readSchedule h' a = Some S \<and>
         (case out of
            Inl e \<Rightarrow> mutateSchedule nextDay r eng S = Inl e
          | Inr a' \<Rightarrow>
              (\<exists>S'. readSchedule h' a' = Some S' \<and> mutateSchedule nextDay r eng S = Inr S'))"
proof -
  from rd obtain arr sc refs cs s where
    a: "readCell h a = Some (ScheduleCell arr sc)" and ar: "readArray h arr = Some refs"
    and c: "readClasses h refs = Some cs" and s: "readScore h sc = Some s"
    and S: "S = \<lparr> classes = cs, score = s \<rparr>"
    by (auto simp: readSchedule_def split: option.splits cell.splits)
  from c have len: "length cs = length refs" by (rule readClasses_length)
  let ?idx = "\<lfloor>pick r * real (length refs)\<rfloor>"
  let ?i = "nat ?idx"
  let ?h1 = "h @ [ArrayCell refs]"
  from run mutateScheduleStore_read [OF a ar c]
  have copy: "mutateCopy nextDay r eng ?h1 a (length h) refs cs = (h', out)" by simp
  have main: "extends h h' \<and>
         (case out of
            Inl e \<Rightarrow> mutateSchedule nextDay r eng S = Inl e
          | Inr a' \<Rightarrow>
              (\<exists>S'. readSchedule h' a' = Some S' \<and> mutateSchedule nextDay r eng S = Inr S'))"
  proof (cases "?idx < 0 \<or> int (length refs) \<le> ?idx")
    case True
    from copy mutateCopy_range [OF True] have "h' = ?h1" "out = Inl TypeError" by simp_all
    moreover from True S len have "mutateSchedule nextDay r eng S = Inl TypeError"
      by (simp add: mutateSchedule_def Let_def)
    ultimately show ?thesis by simp
  next
    case False
    show ?thesis
    proof (cases "findClass (engineClasses eng) (classId (cs ! ?i))")
      case None
      from copy mutateCopy_missing [OF False None] have "h' = ?h1" "out = Inr a" by simp_all
      moreover from None False S len have "mutateSchedule nextDay r eng S = Inr S"
        by (simp add: mutateSchedule_def Let_def)
      moreover have "readSchedule ?h1 a = Some S"
        using _ rd by (rule readSchedule_extends) simp
      ultimately show ?thesis by simp
    next
      case (Some orig)
      show ?thesis
      proof (cases "fst (findSlot nextDay r eng (countsWithout cs ?i) (totalConflicts orig))")
        case None
        let ?x = "calculateScore eng cs"
        let ?h4 = "h @ [ArrayCell refs, ScoreCell ?x, ScheduleCell (length h) (Suc (length h))]"
        have "storeMovedEntry ?h1 (length h) refs cs ?i
            (fst (findSlot nextDay r eng (countsWithout cs ?i) (totalConflicts orig))) = (?h1, cs)"
          by (simp add: None)
        from copy mutateCopy_found [OF False Some this]
        have out: "h' = ?h4" "out = Inr (Suc (Suc (length h)))"
          by (simp_all add: storeNewSchedule_eq)
        from None Some False S len
        have pure: "mutateSchedule nextDay r eng S = Inr \<lparr> classes = cs, score = ?x \<rparr>"
          by (simp add: mutateSchedule_def Let_def countsWithout_def)
        have ext: "extends h ?h4" by simp
        have "readClasses ?h4 refs = Some cs"
          using ext c by (rule readClasses_extends)
        then have "readSchedule ?h4 (Suc (Suc (length h))) = Some \<lparr> classes = cs, score = ?x \<rparr>"
          by (simp add: readSchedule_def readCell_def readArray_def readScore_def nth_append)
        with out pure ext show ?thesis by simp
      next
        case (Some b)
        let ?moved = "(cs ! ?i)\<lparr> date := slotDate b, period := slotPeriod b \<rparr>"
        let ?cs' = "moveTo cs ?i b"
        let ?x = "calculateScore eng ?cs'"
        let ?refs' = "refs[?i := Suc (length h)]"
        let ?h4 = "h @ [ArrayCell ?refs', ClassCell ?moved, ScoreCell ?x,
            ScheduleCell (length h) (Suc (Suc (length h)))]"
        have "storeMovedEntry ?h1 (length h) refs cs ?i
            (fst (findSlot nextDay r eng (countsWithout cs ?i) (totalConflicts orig))) =
            (h @ [ArrayCell ?refs', ClassCell ?moved], ?cs')"
          by (simp add: Some storeMovedEntry_Some)
        from copy mutateCopy_found [OF False \<open>findClass (engineClasses eng) (classId (cs ! ?i)) = Some orig\<close> this]
        have out: "h' = ?h4" "out = Inr (Suc (Suc (Suc (length h))))"
          by (simp_all add: storeNewSchedule_eq)
        from Some \<open>findClass (engineClasses eng) (classId (cs ! ?i)) = Some orig\<close> False S len
        have pure: "mutateSchedule nextDay r eng S = Inr \<lparr> classes = ?cs', score = ?x \<rparr>"
          by (simp add: mutateSchedule_def Let_def countsWithout_def moveTo_def)
        have ext: "extends h ?h4" by simp
        have "readClasses ?h4 refs = Some cs"
          using ext c by (rule readClasses_extends)
        moreover have "readClass ?h4 (Suc (length h)) = Some ?moved"
          by (simp add: readClass_def readCell_def nth_append)
        ultimately have "readClasses ?h4 ?refs' = Some (cs[?i := ?moved])"
          by (rule readClasses_update)
        then have "readSchedule ?h4 (Suc (Suc (Suc (length h)))) =
            Some \<lparr> classes = ?cs', score = ?x \<rparr>"
          by (simp add: readSchedule_def readCell_def readArray_def readScore_def nth_append
              moveTo_def)
        with out pure ext show ?thesis by simp
      qed
    qed
  qed
  moreover from main rd have "readSchedule h' a = Some S"
    by (blast intro: readSchedule_extends)
  ultimately show ?thesis by blast
qed

section \<open>What a mutation changes\<close>

lemma sameButSlot_refl [simp]: "sameButSlot x x"
  by (simp add: sameButSlot_def)

lemma sameButSlot_move [simp]: "sameButSlot x (x\<lparr> date := d, period := p \<rparr>)"
  by (simp add: sameButSlot_def)

lemma differInAtMostOneSlot_refl [simp]: "differInAtMostOneSlot xs xs"
  unfolding differInAtMostOneSlot_def by (auto intro: bexI [of _ 0])

lemma differInAtMostOneSlot_moveTo:
  "i < length xs \<Longrightarrow> differInAtMostOneSlot xs (moveTo xs i b)"
  unfolding differInAtMostOneSlot_def moveTo_def by (auto intro!: bexI [of _ i])

lemma mutateSchedule_change:
  assumes m: "mutateSchedule nextDay r eng S = Inr S'"
  shows "differInAtMostOneSlot (classes S) (classes S') \<and>
         ((\<forall>c s. findClass (engineClasses eng) (classId (classes S ! pickedIndex r S)) = Some c \<longrightarrow>
              \<not> legalDestination nextDay eng (countsWithout (classes S) (pickedIndex r S))
                  (totalConflicts c) s) \<longrightarrow>
          classes S' = classes S)"
proof -
  let ?idx = "\<lfloor>pick r * real (length (classes S))\<rfloor>"
  let ?i = "pickedIndex r S"
  from m have range: "\<not> (?idx < 0 \<or> int (length (classes S)) \<le> ?idx)"
    by (auto simp: mutateSchedule_def Let_def split: if_splits)
  then have i: "?i < length (classes S)" unfolding pickedIndex_def by linarith
  show ?thesis
  proof (cases "findClass (engineClasses eng) (classId (classes S ! ?i))")
    case None
    with m range have "S' = S"
      by (simp add: mutateSchedule_def Let_def pickedIndex_def)
    then show ?thesis by simp
  next
    case (Some c)
    obtain best chosen where fs: "findSlot nextDay r eng (countsWithout (classes S) ?i)
        (totalConflicts c) = (best, chosen)"
      by (cases "findSlot nextDay r eng (countsWithout (classes S) ?i) (totalConflicts c)") auto
    show ?thesis
    proof (cases best)
      case None
      with Some fs m range have "classes S' = classes S"
        by (auto simp: mutateSchedule_def Let_def pickedIndex_def countsWithout_def)
      then show ?thesis by simp
    next
      case (Some b)
      with \<open>findClass (engineClasses eng) (classId (classes S ! ?i)) = Some c\<close> fs m range
      have S': "classes S' = moveTo (classes S) ?i b"
        by (auto simp: mutateSchedule_def Let_def pickedIndex_def countsWithout_def moveTo_def)
      from findSlot_slots [OF fs] Some
      have "legalDestination nextDay eng (countsWithout (classes S) ?i) (totalConflicts c) b"
        by simp
      with \<open>findClass (engineClasses eng) (classId (classes S ! ?i)) = Some c\<close> S' i
      show ?thesis by (auto simp: differInAtMostOneSlot_moveTo)
    qed
  qed
qed

text \<open>
  C8: \<open>mutateSchedule\<close> writes only to objects it has created. Whatever schedule object it
  is given (its classes in the catalogue or not) and however the call ends, every cell of
  the store that existed before the call has its old content afterwards, so the input
  schedule, its classes array, each entry and its score read back as before. When a
  schedule is returned, it is the value that the function \<open>mutateSchedule\<close> of the
  annealing loop computes; its assignment differs from the input's in at most one class's
  (date, period); and when no slot is legal for the picked class (none in the window that
  is below the day cap and free of a total conflict), the assignment is the input's.
\<close>

theorem mutation_leaves_input_unchanged:
  assumes "readSchedule h a = Some S"
    and "mutateScheduleStore nextDay r eng h a = (h', out)"
  shows "extends h h' \<and> readSchedule h' a = Some S \<and>
         (\<forall>a'. out = Inr a' \<longrightarrow>
            (\<exists>S'. readSchedule h' a' = Some S' \<and>
                  mutateSchedule nextDay r eng S = Inr S' \<and>
                  differInAtMostOneSlot (classes S) (classes S') \<and>
                  ((\<forall>c s. findClass (engineClasses eng)
                              (classId (classes S ! pickedIndex r S)) = Some c \<longrightarrow>
                          \<not> legalDestination nextDay eng
                              (countsWithout (classes S) (pickedIndex r S))
                              (totalConflicts c) s) \<longrightarrow>
                   classes S' = classes S)))"
proof -
  from mutateScheduleStore_refines [OF assms]
  have frame: "extends h h'" "readSchedule h' a = Some S"
    and res: "case out of
            Inl e \<Rightarrow> mutateSchedule nextDay r eng S = Inl e
          | Inr a' \<Rightarrow>
              (\<exists>S'. readSchedule h' a' = Some S' \<and> mutateSchedule nextDay r eng S = Inr S')"
    by simp_all
  have "\<exists>S'. readSchedule h' a' = Some S' \<and>
                  mutateSchedule nextDay r eng S = Inr S' \<and>
                  differInAtMostOneSlot (classes S) (classes S') \<and>
                  ((\<forall>c s. findClass (engineClasses eng)
                              (classId (classes S ! pickedIndex r S)) = Some c \<longrightarrow>
                          \<not> legalDestination nextDay eng
                              (countsWithout (classes S) (pickedIndex r S))
                              (totalConflicts c) s) \<longrightarrow>
                   classes S' = classes S)" if "out = Inr a'" for a'
  proof -
    from res that obtain S' where S': "readSchedule h' a' = Some S'"
      "mutateSchedule nextDay r eng S = Inr S'" by auto
    from mutateSchedule_change [OF S'(2)] S' show ?thesis by blast
  qed
  with frame show ?thesis by blast
qed

theorem mutation_leaves_input_unchanged_witness:
  "readSchedule guardedStore 4 = Some guardedSchedule \<and>
   mutateScheduleStore utcNextDay farRand guardedEngine guardedStore 4 = (movedStore, Inr 8) \<and>
   extends guardedStore movedStore \<and>
   readSchedule movedStore 4 = Some guardedSchedule \<and>
   (\<exists>S'. readSchedule movedStore 8 = Some S' \<and>
         mutateSchedule utcNextDay farRand guardedEngine guardedSchedule = Inr S' \<and>
         differInAtMostOneSlot (classes guardedSchedule) (classes S'))"
proof -
  have rd: "readSchedule guardedStore 4 = Some guardedSchedule"
    by code_simp
  have run: "mutateScheduleStore utcNextDay farRand guardedEngine guardedStore 4 =
      (movedStore, Inr 8)"
    by code_simp
  from mutation_leaves_input_unchanged [OF rd run] rd run show ?thesis
    by blast
qed

end
